theory Spec2Isabelle
  imports Main "HOL-Library.Sublist"
begin

section \<open>Data model of the feature drift filter\<close>

text \<open>
  The hook \<^verbatim>\<open>useGetFilteredFeatures\<close> of
  \<^verbatim>\<open>data-drift/binary-classification/use-get-filtered-features.js\<close> reads two
  external values: the \<^verbatim>\<open>data\<close> member returned by the polling query hook and the
  \<^verbatim>\<open>__metadata\<close> object of the form context. Both are inputs of the model. An
  optional member of a JavaScript object (\<^verbatim>\<open>undefined\<close> or \<^verbatim>\<open>null\<close>) is an
  \<open>option\<close> field.
\<close>

text \<open>The only exception the hook can raise: destructuring or reading a member of
  \<^verbatim>\<open>undefined\<close>.\<close>

datatype js_error = TypeError

text \<open>\<^verbatim>\<open>DRIFT_TEST_ENUM\<close> is defined in another module, \<^verbatim>\<open>@Src/constants\<close>; its two
  members that the hook reads are a parameter of the model.\<close>

record drift_test_enum =
  KS :: string
  CHI2 :: string

record drift_calc =
  type :: string

record drift_metric =
  featureName :: string
  driftCalc :: "drift_calc option"

record drift_obj =
  featureMetrics :: "drift_metric list option"

record drift_data =
  drift :: "drift_obj option"

record metadata =
  isNumericalSelected :: bool
  isCategoricalSelected :: bool
  selectedFeatures :: "string list option"

text \<open>The console is the only state the hook touches: the sequence of argument triples
  passed to \<^verbatim>\<open>console.debug\<close> so far.\<close>

type_synonym console = "(string \<times> bool \<times> bool) list"

definition console_debug :: "string \<times> bool \<times> bool \<Rightarrow> console \<Rightarrow> console" where
  "console_debug entry c = c @ [entry]"

section \<open>The hook\<close>

text \<open>\<^verbatim>\<open>Array.prototype.filter\<close> with a callback that may throw and may write to the
  console: the elements are visited in order, an exception of the callback ends the
  traversal, and the elements for which the callback answers true are kept.\<close>

fun Array_filter ::
  "('a \<Rightarrow> 'c \<Rightarrow> (js_error + bool) \<times> 'c) \<Rightarrow> 'a list \<Rightarrow> 'c \<Rightarrow> (js_error + 'a list) \<times> 'c" where
  "Array_filter callbackFn [] c = (Inr [], c)"
| "Array_filter callbackFn (x # xs) c =
     (case callbackFn x c of
        (Inl e, c') \<Rightarrow> (Inl e, c')
      | (Inr keep, c') \<Rightarrow>
          (case Array_filter callbackFn xs c' of
             (Inl e, c'') \<Rightarrow> (Inl e, c'')
           | (Inr kept, c'') \<Rightarrow> (Inr (if keep then x # kept else kept), c'')))"

text \<open>Line 7: \<^verbatim>\<open>data?.drift?.featureMetrics ?? []\<close>.\<close>

definition items :: "drift_data option \<Rightarrow> drift_metric list" where
  "items data =
     (case data of
        None \<Rightarrow> []
      | Some d \<Rightarrow>
          (case drift d of
             None \<Rightarrow> []
           | Some dr \<Rightarrow> (case featureMetrics dr of None \<Rightarrow> [] | Some ms \<Rightarrow> ms)))"

text \<open>Line 19: \<^verbatim>\<open>selectedFeatures?.length > 0\<close>; \<^verbatim>\<open>undefined > 0\<close> is false.\<close>

definition selectedFeatures_length_gt_0 :: "string list option \<Rightarrow> bool" where
  "selectedFeatures_length_gt_0 sf = (case sf of None \<Rightarrow> False | Some xs \<Rightarrow> length xs > 0)"

text \<open>Lines 20 to 26, the callback of the branch with a name filter. The parameter
  pattern \<^verbatim>\<open>{ featureName, driftCalc: { type } }\<close> throws when \<^verbatim>\<open>driftCalc\<close> is
  missing, before the body runs.\<close>

definition selected_callback ::
  "drift_test_enum \<Rightarrow> metadata \<Rightarrow> drift_metric \<Rightarrow> console \<Rightarrow> (js_error + bool) \<times> console" where
  "selected_callback DRIFT_TEST_ENUM md m c =
     (case driftCalc m of
        None \<Rightarrow> (Inl TypeError, c)
      | Some dc \<Rightarrow>
          (case selectedFeatures md of
             None \<Rightarrow> (Inl TypeError, c)
           | Some sel \<Rightarrow>
               (let isSelected = featureName m \<in> set sel;
                    isNumerical = (isNumericalSelected md \<and> type dc = KS DRIFT_TEST_ENUM);
                    isCategorical = (isCategoricalSelected md \<and> type dc = CHI2 DRIFT_TEST_ENUM)
                in (Inr (isSelected \<and> (isNumerical \<or> isCategorical)), c))))"

text \<open>Lines 27 to 34, the callback of the branch without a name filter, which reports
  each metric on the console before it answers.\<close>

definition type_callback ::
  "drift_test_enum \<Rightarrow> metadata \<Rightarrow> drift_metric \<Rightarrow> console \<Rightarrow> (js_error + bool) \<times> console" where
  "type_callback DRIFT_TEST_ENUM md m c =
     (case driftCalc m of
        None \<Rightarrow> (Inl TypeError, c)
      | Some dc \<Rightarrow>
          (let isNumerical = (isNumericalSelected md \<and> type dc = KS DRIFT_TEST_ENUM);
               isCategorical = (isCategoricalSelected md \<and> type dc = CHI2 DRIFT_TEST_ENUM);
               c' = console_debug (type dc, isNumerical, isCategorical) c
           in (Inr (isNumerical \<or> isCategorical), c')))"

text \<open>Lines 5 to 35. The result is the returned array or the exception, together with
  the console after the call.\<close>

definition useGetFilteredFeatures ::
  "drift_test_enum \<Rightarrow> drift_data option \<Rightarrow> metadata \<Rightarrow> console
     \<Rightarrow> (js_error + drift_metric list) \<times> console" where
  "useGetFilteredFeatures DRIFT_TEST_ENUM data md c =
     (if data = None then (Inr [], c)
      else if \<not> isNumericalSelected md \<and> \<not> isCategoricalSelected md then (Inr [], c)
      else if selectedFeatures_length_gt_0 (selectedFeatures md)
        then Array_filter (selected_callback DRIFT_TEST_ENUM md) (items data) c
        else Array_filter (type_callback DRIFT_TEST_ENUM md) (items data) c)"

section \<open>The filter as the specification words it\<close>

text \<open>Step 3 of the filter contract: a metric passes the type filter when it is
  numerically eligible (the numerical toggle is set and its \<^verbatim>\<open>driftCalc.type\<close> is the
  numerical test kind) or categorically eligible (the categorical toggle is set and
  its type is the categorical test kind).\<close>

definition passes_type_filter :: "drift_test_enum \<Rightarrow> metadata \<Rightarrow> drift_metric \<Rightarrow> bool" where
  "passes_type_filter DRIFT_TEST_ENUM md m \<longleftrightarrow>
     (isNumericalSelected md \<and> map_option type (driftCalc m) = Some (KS DRIFT_TEST_ENUM)) \<or>
     (isCategoricalSelected md \<and> map_option type (driftCalc m) = Some (CHI2 DRIFT_TEST_ENUM))"

text \<open>The branch without a name filter with its diagnostic removed: the traversal of
  lines 27 to 34 without line 31, hence without a console.\<close>

fun type_filter_without_diagnostic ::
  "drift_test_enum \<Rightarrow> metadata \<Rightarrow> drift_metric list \<Rightarrow> js_error + drift_metric list" where
  "type_filter_without_diagnostic DRIFT_TEST_ENUM md [] = Inr []"
| "type_filter_without_diagnostic DRIFT_TEST_ENUM md (m # ms) =
     (case driftCalc m of
        None \<Rightarrow> Inl TypeError
      | Some dc \<Rightarrow>
          (case type_filter_without_diagnostic DRIFT_TEST_ENUM md ms of
             Inl e \<Rightarrow> Inl e
           | Inr kept \<Rightarrow>
               Inr (if (isNumericalSelected md \<and> type dc = KS DRIFT_TEST_ENUM) \<or>
                       (isCategoricalSelected md \<and> type dc = CHI2 DRIFT_TEST_ENUM)
                    then m # kept else kept)))"

section \<open>Example inputs\<close>

text \<open>The test kinds and the dataset of the specification's scenarios, and a metric
  of a third test kind.\<close>

definition example_enum :: drift_test_enum where
  "example_enum = \<lparr>KS = ''KS'', CHI2 = ''CHI2''\<rparr>"

definition age :: drift_metric where
  "age = \<lparr>featureName = ''age'', driftCalc = Some \<lparr>type = ''KS''\<rparr>\<rparr>"

definition city :: drift_metric where
  "city = \<lparr>featureName = ''city'', driftCalc = Some \<lparr>type = ''CHI2''\<rparr>\<rparr>"

definition income :: drift_metric where
  "income = \<lparr>featureName = ''income'', driftCalc = Some \<lparr>type = ''PSI''\<rparr>\<rparr>"

definition example_data :: "drift_data option" where
  "example_data = Some \<lparr>drift = Some \<lparr>featureMetrics = Some [age, city]\<rparr>\<rparr>"

definition example_data_psi :: "drift_data option" where
  "example_data_psi = Some \<lparr>drift = Some \<lparr>featureMetrics = Some [age, income, city]\<rparr>\<rparr>"

lemmas example_defs =
  example_enum_def age_def city_def income_def example_data_def example_data_psi_def
  useGetFilteredFeatures_def items_def selectedFeatures_length_gt_0_def
  selected_callback_def type_callback_def console_debug_def passes_type_filter_def

section \<open>Properties of the traversals\<close>

lemma type_branch_fst:
  "fst (Array_filter (type_callback E md) xs c) = type_filter_without_diagnostic E md xs"
proof (induction xs arbitrary: c)
  case Nil
  show ?case by simp
next
  case (Cons m ms)
  show ?case
  proof (cases "driftCalc m")
    case None
    then show ?thesis by (simp add: type_callback_def)
  next
    case (Some dc)
    define b where "b \<longleftrightarrow> (isNumericalSelected md \<and> type dc = KS E) \<or>
      (isCategoricalSelected md \<and> type dc = CHI2 E)"
    define c1 where "c1 = console_debug (type dc, isNumericalSelected md \<and> type dc = KS E,
      isCategoricalSelected md \<and> type dc = CHI2 E) c"
    have cb: "type_callback E md m c = (Inr b, c1)"
      using Some by (simp add: type_callback_def b_def c1_def Let_def)
    obtain r c2 where rest: "Array_filter (type_callback E md) ms c1 = (r, c2)"
      by (cases "Array_filter (type_callback E md) ms c1")
    have r: "type_filter_without_diagnostic E md ms = r"
      using Cons.IH [of c1] rest by simp
    show ?thesis
    proof (cases r)
      case (Inl e)
      then show ?thesis using Some cb rest r by simp
    next
      case (Inr kept)
      then show ?thesis using Some cb rest r by (simp add: b_def)
    qed
  qed
qed

lemma type_filter_without_diagnostic_wf:
  "\<forall>m\<in>set xs. driftCalc m \<noteq> None \<Longrightarrow>
   type_filter_without_diagnostic E md xs = Inr (filter (passes_type_filter E md) xs)"
  by (induction xs) (auto simp: passes_type_filter_def)

lemma selected_branch:
  assumes "selectedFeatures md = Some sel"
    and "\<forall>m\<in>set xs. driftCalc m \<noteq> None"
  shows "Array_filter (selected_callback E md) xs c =
         (Inr (filter (\<lambda>m. featureName m \<in> set sel \<and> passes_type_filter E md m) xs), c)"
  using assms
  by (induction xs) (auto simp: selected_callback_def passes_type_filter_def)

lemma selected_branch_console:
  "fst (Array_filter (selected_callback E md) xs c) =
   fst (Array_filter (selected_callback E md) xs c')"
proof (induction xs)
  case Nil
  show ?case by simp
next
  case (Cons m ms)
  then show ?case
    by (auto simp: selected_callback_def Let_def split: option.splits prod.splits sum.splits)
qed

lemma console_independent:
  "fst (useGetFilteredFeatures E data md c) = fst (useGetFilteredFeatures E data md c')"
  by (simp add: useGetFilteredFeatures_def type_branch_fst selected_branch_console)

text \<open>On metrics that all carry a \<^verbatim>\<open>driftCalc\<close>, the hook returns, and what it returns
  is a filter of the working sequence.\<close>

lemma result_wf:
  assumes "\<forall>m\<in>set (items data). driftCalc m \<noteq> None"
  shows "fst (useGetFilteredFeatures E data md c) =
    Inr (if data = None \<or> (\<not> isNumericalSelected md \<and> \<not> isCategoricalSelected md) then []
         else filter (\<lambda>m. (case selectedFeatures md of
                              None \<Rightarrow> True
                            | Some sel \<Rightarrow> sel = [] \<or> featureName m \<in> set sel)
                          \<and> passes_type_filter E md m) (items data))"
proof (cases "selectedFeatures md")
  case None
  then show ?thesis using assms
    by (simp add: useGetFilteredFeatures_def selectedFeatures_length_gt_0_def
        type_branch_fst type_filter_without_diagnostic_wf)
next
  case (Some sel)
  show ?thesis
  proof (cases "sel = []")
    case True
    then show ?thesis using assms Some
      by (simp add: useGetFilteredFeatures_def selectedFeatures_length_gt_0_def
          type_branch_fst type_filter_without_diagnostic_wf)
  next
    case False
    then show ?thesis using assms Some
      by (simp add: useGetFilteredFeatures_def selectedFeatures_length_gt_0_def
          selected_branch)
  qed
qed

text \<open>Conversely, when the hook returns, either nothing was visited or every metric
  carried a \<^verbatim>\<open>driftCalc\<close>; in both cases the result is a filter of the working
  sequence.\<close>

lemma type_filter_without_diagnostic_Inr:
  "type_filter_without_diagnostic E md xs = Inr r \<Longrightarrow> \<forall>m\<in>set xs. driftCalc m \<noteq> None"
  by (induction xs arbitrary: r) (auto split: option.splits sum.splits)

lemma selected_branch_Inr:
  "fst (Array_filter (selected_callback E md) xs c) = Inr r \<Longrightarrow>
   \<forall>m\<in>set xs. driftCalc m \<noteq> None"
proof (induction xs arbitrary: r)
  case Nil
  show ?case by simp
next
  case (Cons m ms)
  then show ?case
    by (auto simp: selected_callback_def Let_def split: option.splits prod.splits sum.splits)
qed

lemma returns_cases:
  assumes "fst (useGetFilteredFeatures E data md c) = Inr r"
  shows "r = [] \<or> (\<forall>m\<in>set (items data). driftCalc m \<noteq> None)"
proof (cases "data = None \<or> (\<not> isNumericalSelected md \<and> \<not> isCategoricalSelected md)")
  case True
  then have "useGetFilteredFeatures E data md c = (Inr [], c)"
    by (cases "data = None") (simp_all add: useGetFilteredFeatures_def)
  then show ?thesis using assms by simp
next
  case False
  then have present: "data \<noteq> None"
    and toggle: "\<not> (\<not> isNumericalSelected md \<and> \<not> isCategoricalSelected md)"
    by simp_all
  show ?thesis
  proof (cases "selectedFeatures_length_gt_0 (selectedFeatures md)")
    case True
    have "useGetFilteredFeatures E data md c =
        Array_filter (selected_callback E md) (items data) c"
      using present toggle True by (auto simp: useGetFilteredFeatures_def)
    then have "fst (Array_filter (selected_callback E md) (items data) c) = Inr r"
      using assms by simp
    then show ?thesis using selected_branch_Inr by blast
  next
    case sel: False
    have "useGetFilteredFeatures E data md c =
        Array_filter (type_callback E md) (items data) c"
      using present toggle sel by (auto simp: useGetFilteredFeatures_def)
    then have "type_filter_without_diagnostic E md (items data) = Inr r"
      using assms by (simp add: type_branch_fst)
    then show ?thesis using type_filter_without_diagnostic_Inr by blast
  qed
qed

lemma returns_filter:
  assumes "fst (useGetFilteredFeatures E data md c) = Inr r"
  shows "\<exists>P. r = filter P (items data)"
  using returns_cases [OF assms]
proof
  assume "r = []"
  then have "r = filter (\<lambda>_. False) (items data)" by simp
  then show ?thesis by (rule exI [where x = "\<lambda>_. False"])
next
  define P where "P = (\<lambda>m. (case selectedFeatures md of
                              None \<Rightarrow> True
                            | Some sel \<Rightarrow> sel = [] \<or> featureName m \<in> set sel)
                          \<and> passes_type_filter E md m)"
  assume "\<forall>m\<in>set (items data). driftCalc m \<noteq> None"
  from result_wf [OF this, of E md c] assms
  have "r = [] \<or> r = filter P (items data)"
    by (simp add: P_def split: if_splits)
  then show ?thesis
  proof
    assume "r = []"
    then have "r = filter (\<lambda>_. False) (items data)" by simp
    then show ?thesis by (rule exI [where x = "\<lambda>_. False"])
  next
    assume "r = filter P (items data)"
    then show ?thesis by (rule exI [where x = P])
  qed
qed

section \<open>The claims\<close>

text \<open>C1. For a present dataset and a filter state with a type toggle set, a metric of
  the dataset is in the result exactly when it satisfies the name restriction in force
  (none when \<^verbatim>\<open>selectedFeatures\<close> is empty or absent) and the type test, and the type
  test is: the numerical toggle is set and the metric's \<^verbatim>\<open>driftCalc.type\<close> is
  \<^verbatim>\<open>KS\<close>, or the categorical toggle is set and the type is \<^verbatim>\<open>CHI2\<close>.\<close>

theorem type_filter_iff:
  assumes "data = Some d"
    and "isNumericalSelected md \<or> isCategoricalSelected md"
    and "\<forall>m\<in>set (items data). driftCalc m \<noteq> None"
  shows "\<exists>r. fst (useGetFilteredFeatures E data md c) = Inr r \<and>
    (\<forall>m\<in>set (items data).
       m \<in> set r \<longleftrightarrow>
         (case selectedFeatures md of
            None \<Rightarrow> True
          | Some sel \<Rightarrow> sel = [] \<or> featureName m \<in> set sel) \<and>
         ((isNumericalSelected md \<and> map_option type (driftCalc m) = Some (KS E)) \<or>
          (isCategoricalSelected md \<and> map_option type (driftCalc m) = Some (CHI2 E))))"
  using assms(1,2) result_wf [OF assms(3), of E md c]
  by (auto simp: passes_type_filter_def)

theorem type_filter_iff_witness:
  "\<exists>r. fst (useGetFilteredFeatures example_enum example_data
             \<lparr>isNumericalSelected = True, isCategoricalSelected = False,
              selectedFeatures = Some []\<rparr> []) = Inr r \<and>
       age \<in> set r \<and> city \<notin> set r"
  using type_filter_iff [of example_data
      "\<lparr>drift = Some \<lparr>featureMetrics = Some [age, city]\<rparr>\<rparr>"
      "\<lparr>isNumericalSelected = True, isCategoricalSelected = False, selectedFeatures = Some []\<rparr>"
      example_enum "[]"]
  by (simp add: example_defs)

text \<open>C2. With a present dataset, a type toggle set and a non-empty
  \<^verbatim>\<open>selectedFeatures\<close>, the result is the metrics whose \<^verbatim>\<open>featureName\<close> is selected
  and that pass the type filter; every metric of the result has a selected name.\<close>

theorem name_and_type_filter:
  assumes "data = Some d"
    and "isNumericalSelected md \<or> isCategoricalSelected md"
    and "selectedFeatures md = Some sel" and "sel \<noteq> []"
    and "\<forall>m\<in>set (items data). driftCalc m \<noteq> None"
  shows "\<exists>r. fst (useGetFilteredFeatures E data md c) = Inr r \<and>
    r = filter (\<lambda>m. featureName m \<in> set sel \<and> passes_type_filter E md m) (items data) \<and>
    (\<forall>m. m \<in> set r \<longleftrightarrow>
       m \<in> set (items data) \<and> featureName m \<in> set sel \<and> passes_type_filter E md m) \<and>
    (\<forall>m\<in>set r. featureName m \<in> set sel)"
  using assms(1-4) result_wf [OF assms(5), of E md c]
  by auto

theorem name_and_type_filter_witness:
  "fst (useGetFilteredFeatures example_enum example_data
         \<lparr>isNumericalSelected = True, isCategoricalSelected = True,
          selectedFeatures = Some [''city'']\<rparr> []) = Inr [city]"
  using name_and_type_filter [of example_data
      "\<lparr>drift = Some \<lparr>featureMetrics = Some [age, city]\<rparr>\<rparr>"
      "\<lparr>isNumericalSelected = True, isCategoricalSelected = True,
        selectedFeatures = Some [''city'']\<rparr>"
      "[''city'']" example_enum "[]"]
  by (simp add: example_defs)

text \<open>C3. With a present dataset, a type toggle set and \<^verbatim>\<open>selectedFeatures\<close> empty or
  absent, the result is exactly the sequence of the metrics that pass the type filter,
  whatever their names.\<close>

theorem type_filter_alone:
  assumes "data = Some d"
    and "isNumericalSelected md \<or> isCategoricalSelected md"
    and "selectedFeatures md = None \<or> selectedFeatures md = Some []"
    and "\<forall>m\<in>set (items data). driftCalc m \<noteq> None"
  shows "fst (useGetFilteredFeatures E data md c) =
    Inr (filter (passes_type_filter E md) (items data))"
  using assms(1-3) result_wf [OF assms(4), of E md c]
  by auto

theorem type_filter_alone_witness:
  "fst (useGetFilteredFeatures example_enum example_data
         \<lparr>isNumericalSelected = False, isCategoricalSelected = True,
          selectedFeatures = None\<rparr> []) = Inr [city]"
  using type_filter_alone [of example_data
      "\<lparr>drift = Some \<lparr>featureMetrics = Some [age, city]\<rparr>\<rparr>"
      "\<lparr>isNumericalSelected = False, isCategoricalSelected = True, selectedFeatures = None\<rparr>"
      example_enum "[]"]
  by (simp add: example_defs)

text \<open>C4. When both type toggles are off the hook returns the empty sequence, whatever
  the dataset and \<^verbatim>\<open>selectedFeatures\<close> are, and visits no metric: nothing is thrown
  and the console is left as it was.\<close>

theorem no_type_selected_empty:
  assumes "\<not> isNumericalSelected md" and "\<not> isCategoricalSelected md"
  shows "useGetFilteredFeatures E data md c = (Inr [], c)"
  using assms by (simp add: useGetFilteredFeatures_def)

theorem no_type_selected_empty_witness:
  "useGetFilteredFeatures example_enum example_data
     \<lparr>isNumericalSelected = False, isCategoricalSelected = False,
      selectedFeatures = Some [''age'']\<rparr> [] = (Inr [], [])"
  using no_type_selected_empty [of
      "\<lparr>isNumericalSelected = False, isCategoricalSelected = False,
        selectedFeatures = Some [''age'']\<rparr>" example_enum example_data "[]"]
  by simp

text \<open>C5. Whenever the hook returns, its result is a subsequence of the dataset's
  \<^verbatim>\<open>featureMetrics\<close>: the metrics kept stand in their original order, none is
  inserted, and a sequence without duplicates stays without duplicates. It does
  return when every metric has a \<^verbatim>\<open>driftCalc\<close>.\<close>

theorem result_subseq:
  "(\<forall>r. fst (useGetFilteredFeatures E data md c) = Inr r \<longrightarrow>
      subseq r (items data) \<and> (distinct (items data) \<longrightarrow> distinct r)) \<and>
   ((\<forall>m\<in>set (items data). driftCalc m \<noteq> None) \<longrightarrow>
      (\<exists>r. fst (useGetFilteredFeatures E data md c) = Inr r))"
proof (intro conjI allI impI)
  fix r assume "fst (useGetFilteredFeatures E data md c) = Inr r"
  then obtain P where r: "r = filter P (items data)"
    using returns_filter by blast
  show "subseq r (items data)" by (simp add: r)
  show "distinct r" if "distinct (items data)" using that by (simp add: r)
next
  assume "\<forall>m\<in>set (items data). driftCalc m \<noteq> None"
  from result_wf [OF this, of E md c]
  show "\<exists>r. fst (useGetFilteredFeatures E data md c) = Inr r" by simp
qed

theorem result_subseq_witness:
  "\<exists>r. fst (useGetFilteredFeatures example_enum example_data_psi
             \<lparr>isNumericalSelected = True, isCategoricalSelected = True,
              selectedFeatures = None\<rparr> []) = Inr r \<and>
       r = [age, city] \<and> subseq r [age, income, city] \<and> distinct r"
  using result_subseq [of example_enum example_data_psi
      "\<lparr>isNumericalSelected = True, isCategoricalSelected = True, selectedFeatures = None\<rparr>"
      "[]"]
  by (simp add: example_defs)

text \<open>C6. An absent dataset, a dataset without \<^verbatim>\<open>drift\<close>, one without
  \<^verbatim>\<open>featureMetrics\<close> and one with an empty \<^verbatim>\<open>featureMetrics\<close> all give the empty
  working sequence, and on an absent dataset or an empty working sequence the hook
  returns the empty sequence, for every filter state.\<close>

theorem absent_or_empty_dataset:
  "items None = [] \<and>
   items (Some \<lparr>drift = None\<rparr>) = [] \<and>
   items (Some \<lparr>drift = Some \<lparr>featureMetrics = None\<rparr>\<rparr>) = [] \<and>
   items (Some \<lparr>drift = Some \<lparr>featureMetrics = Some []\<rparr>\<rparr>) = [] \<and>
   (data = None \<or> items data = [] \<longrightarrow> useGetFilteredFeatures E data md c = (Inr [], c))"
  by (auto simp: items_def useGetFilteredFeatures_def)

theorem absent_or_empty_dataset_witness:
  "useGetFilteredFeatures example_enum None
     \<lparr>isNumericalSelected = True, isCategoricalSelected = False,
      selectedFeatures = Some [''age'']\<rparr> [] = (Inr [], []) \<and>
   useGetFilteredFeatures example_enum (Some \<lparr>drift = Some \<lparr>featureMetrics = None\<rparr>\<rparr>)
     \<lparr>isNumericalSelected = True, isCategoricalSelected = True,
      selectedFeatures = Some []\<rparr> [] = (Inr [], [])"
  using absent_or_empty_dataset [of None example_enum
      "\<lparr>isNumericalSelected = True, isCategoricalSelected = False,
        selectedFeatures = Some [''age'']\<rparr>" "[]"]
    absent_or_empty_dataset [of "Some \<lparr>drift = Some \<lparr>featureMetrics = None\<rparr>\<rparr>" example_enum
      "\<lparr>isNumericalSelected = True, isCategoricalSelected = True,
        selectedFeatures = Some []\<rparr>" "[]"]
  by simp

text \<open>C7. The traversal of the branch without a name filter, which writes each metric's
  type and eligibility flags to the console, returns what the same traversal without
  the diagnostic returns, for every sequence of metrics and every console; so does the
  hook whenever it takes that branch.\<close>

theorem diagnostic_does_not_affect_result:
  "fst (Array_filter (type_callback E md) xs c) = type_filter_without_diagnostic E md xs \<and>
   (data \<noteq> None \<longrightarrow> isNumericalSelected md \<or> isCategoricalSelected md \<longrightarrow>
    \<not> selectedFeatures_length_gt_0 (selectedFeatures md) \<longrightarrow>
    fst (useGetFilteredFeatures E data md c) =
      type_filter_without_diagnostic E md (items data))"
  by (simp add: useGetFilteredFeatures_def type_branch_fst)

theorem diagnostic_does_not_affect_result_witness:
  "useGetFilteredFeatures example_enum example_data
     \<lparr>isNumericalSelected = True, isCategoricalSelected = False,
      selectedFeatures = Some []\<rparr> [] =
     (Inr [age], [(''KS'', True, False), (''CHI2'', False, False)]) \<and>
   type_filter_without_diagnostic example_enum
     \<lparr>isNumericalSelected = True, isCategoricalSelected = False,
      selectedFeatures = Some []\<rparr> (items example_data) = Inr [age]"
  using diagnostic_does_not_affect_result [of example_enum
      "\<lparr>isNumericalSelected = True, isCategoricalSelected = False, selectedFeatures = Some []\<rparr>"
      "items example_data" "[]" example_data]
  by (simp add: example_defs)

text \<open>C8. Two invocations on the same dataset and filter state return the same result,
  in whatever state each finds the console; in particular the second of two
  invocations in a row, which starts from the console the first one left, returns
  what the first returned.\<close>

theorem two_runs_same_result:
  "fst (useGetFilteredFeatures E data md c) = fst (useGetFilteredFeatures E data md c') \<and>
   fst (useGetFilteredFeatures E data md (snd (useGetFilteredFeatures E data md c))) =
     fst (useGetFilteredFeatures E data md c)"
  using console_independent [of E data md] by metis

theorem two_runs_same_result_witness:
  "snd (useGetFilteredFeatures example_enum example_data
          \<lparr>isNumericalSelected = True, isCategoricalSelected = False,
           selectedFeatures = Some []\<rparr> []) \<noteq> [] \<and>
   fst (useGetFilteredFeatures example_enum example_data
          \<lparr>isNumericalSelected = True, isCategoricalSelected = False,
           selectedFeatures = Some []\<rparr>
          (snd (useGetFilteredFeatures example_enum example_data
                 \<lparr>isNumericalSelected = True, isCategoricalSelected = False,
                  selectedFeatures = Some []\<rparr> []))) = Inr [age]"
  using two_runs_same_result [of example_enum example_data
      "\<lparr>isNumericalSelected = True, isCategoricalSelected = False, selectedFeatures = Some []\<rparr>"
      "[]" "[]"]
  by (simp add: example_defs)

text \<open>C9. On its declared domain (dataset, \<^verbatim>\<open>drift\<close>, \<^verbatim>\<open>featureMetrics\<close> and
  \<^verbatim>\<open>selectedFeatures\<close> each possibly absent, every metric with a \<^verbatim>\<open>driftCalc\<close>) the
  hook throws nothing and returns a sequence, which is empty when the dataset is
  absent, the working sequence is empty or both toggles are off.\<close>

theorem total_on_declared_domain:
  assumes "\<forall>m\<in>set (items data). driftCalc m \<noteq> None"
  shows "\<exists>r. fst (useGetFilteredFeatures E data md c) = Inr r \<and>
    (data = None \<or> items data = [] \<or>
     (\<not> isNumericalSelected md \<and> \<not> isCategoricalSelected md) \<longrightarrow> r = [])"
  using result_wf [OF assms, of E md c] by auto

theorem total_on_declared_domain_witness:
  "(\<exists>r. fst (useGetFilteredFeatures example_enum example_data_psi
             \<lparr>isNumericalSelected = True, isCategoricalSelected = True,
              selectedFeatures = Some [''income'', ''zip'']\<rparr> []) = Inr r) \<and>
   (\<exists>r. fst (useGetFilteredFeatures example_enum None
             \<lparr>isNumericalSelected = True, isCategoricalSelected = True,
              selectedFeatures = None\<rparr> []) = Inr r \<and> r = [])"
  using total_on_declared_domain [of example_data_psi example_enum
      "\<lparr>isNumericalSelected = True, isCategoricalSelected = True,
        selectedFeatures = Some [''income'', ''zip'']\<rparr>" "[]"]
    total_on_declared_domain [of None example_enum
      "\<lparr>isNumericalSelected = True, isCategoricalSelected = True, selectedFeatures = None\<rparr>"
      "[]"]
  by (simp add: example_defs)

text \<open>C10. A metric whose \<^verbatim>\<open>driftCalc.type\<close> is neither \<^verbatim>\<open>KS\<close> nor \<^verbatim>\<open>CHI2\<close> is
  in no result of the hook, whatever the dataset, the toggles and
  \<^verbatim>\<open>selectedFeatures\<close> are; and such a metric raises no error: the hook returns
  when every metric has a \<^verbatim>\<open>driftCalc\<close>.\<close>

theorem unknown_test_kind_excluded:
  assumes "map_option type (driftCalc m) \<noteq> Some (KS E)"
    and "map_option type (driftCalc m) \<noteq> Some (CHI2 E)"
  shows "(\<forall>r. fst (useGetFilteredFeatures E data md c) = Inr r \<longrightarrow> m \<notin> set r) \<and>
   ((\<forall>m\<in>set (items data). driftCalc m \<noteq> None) \<longrightarrow>
      (\<exists>r. fst (useGetFilteredFeatures E data md c) = Inr r))"
proof (intro conjI allI impI)
  fix r assume r: "fst (useGetFilteredFeatures E data md c) = Inr r"
  from returns_cases [OF r] show "m \<notin> set r"
  proof
    assume "r = []" then show ?thesis by simp
  next
    assume "\<forall>m\<in>set (items data). driftCalc m \<noteq> None"
    from result_wf [OF this, of E md c] r assms show ?thesis
      by (auto simp: passes_type_filter_def split: if_splits)
  qed
next
  assume "\<forall>m\<in>set (items data). driftCalc m \<noteq> None"
  from result_wf [OF this, of E md c]
  show "\<exists>r. fst (useGetFilteredFeatures E data md c) = Inr r" by simp
qed

theorem unknown_test_kind_excluded_witness:
  "income \<in> set (items example_data_psi) \<and>
   (\<exists>r. fst (useGetFilteredFeatures example_enum example_data_psi
             \<lparr>isNumericalSelected = True, isCategoricalSelected = True,
              selectedFeatures = Some [''income'']\<rparr> []) = Inr r \<and> income \<notin> set r)"
  using unknown_test_kind_excluded [of income example_enum example_data_psi
      "\<lparr>isNumericalSelected = True, isCategoricalSelected = True,
        selectedFeatures = Some [''income'']\<rparr>" "[]"]
  by (simp add: example_defs)

end
